theory Spec2Isabelle
  imports Complex_Main
begin

section \<open>Portfolio monitor: data model\<close>

text \<open>
  The development embeds \<^verbatim>\<open>portfolio_web_app.py\<close>: the class \<^verbatim>\<open>PortfolioMonitor\<close>
  (RSI, alert evaluation, scan, email, start/stop of the monitoring thread) and the Flask
  handlers that change the stock list and the thesis entries.

  Numbers. The source computes in float64. A cell of a data frame is a finite number or
  NaN (\<open>None\<close>); a computed value can also be an infinity (type \<open>fval\<close>). The finite
  values are rationals, and every float operation of the evaluator rounds its exact result
  with the function \<open>fl\<close> of the runtime, a parameter of the model: what is proved holds for
  every rounding function, the one of float64 included. Overflow is left out, and a zero
  divisor is taken as \<open>+0.0\<close>. In \<open>compute_rsi\<close> only the presence of a value is at stake
  here; its arithmetic is kept exact.

  Strings. Form texts are ASCII; \<^verbatim>\<open>str.strip\<close>, \<^verbatim>\<open>str.upper\<close> and \<^verbatim>\<open>str.split\<close> are
  modelled on ASCII characters.
\<close>

datatype py_error = IndexError | ValueError | OSError

text \<open>The arithmetic of the runtime: \<open>fl\<close> rounds the exact result of a float operation to
  the nearest float64, \<open>round_2dp\<close> is \<^verbatim>\<open>round(x, 2)\<close> on a finite numpy float.\<close>

record runtime =
  fl :: "rat \<Rightarrow> rat"
  round_2dp :: "rat \<Rightarrow> rat"

text \<open>A computed float: finite, an infinity or NaN.\<close>

datatype fval = Fin rat | PInf | NInf | NaN

text \<open>One row of the data frame returned by \<^verbatim>\<open>Ticker.history\<close>; \<open>Date\<close> is the index
  entry, already rendered as \<^verbatim>\<open>%Y-%m-%d\<close>. A cell is \<open>None\<close> when it holds NaN.\<close>

record price_point =
  Date :: string
  Open :: "rat option"
  High :: "rat option"
  Low :: "rat option"
  Close :: "rat option"
  Volume :: "rat option"

text \<open>The dictionary returned by \<^verbatim>\<open>check_stock_alert\<close>. The two status texts carry an
  emoji in the source, which is left out here.\<close>

record alert_result =
  symbol :: string
  current_price :: "rat option"
  recent_high :: "rat option"
  pct_from_high :: fval
  is_alert :: bool
  date_of_high :: string
  status :: string
  rsi :: "rat option"

record thesis_entry =
  ticker :: string
  thesis :: string
  trigger :: string
  created_at :: string

text \<open>The \<^verbatim>\<open>email_settings\<close> dictionary; a key that may be missing is an option.\<close>

record email_config =
  enabled :: "bool option"
  smtp_server :: "string option"
  smtp_port :: "int option"
  sender_email :: "string option"
  sender_password :: "string option"
  recipient_email :: "string option"

text \<open>The configuration dictionary. Every key read with \<^verbatim>\<open>config.get(key, default)\<close> is an
  option, \<open>None\<close> for a missing key.\<close>

record config =
  stocks :: "string list option"
  alert_threshold :: "rat option"
  lookback_days :: "int option"
  scan_interval_minutes :: "int option"
  tradingview_url :: "string option"
  thesis_entries :: "thesis_entry list option"
  email_settings :: "email_config option"

section \<open>Rounding and series operations\<close>

text \<open>\<^verbatim>\<open>round(x, 2)\<close> on a Python float, as \<open>compute_rsi\<close> uses it: to the nearest
  multiple of 1/100, ties to the even neighbour.\<close>

definition round_half_even :: "rat \<Rightarrow> int" where
  "round_half_even x =
     (let f = \<lfloor>x\<rfloor>; d = x - of_int f
      in if d < 1 / 2 then f
         else if 1 / 2 < d then f + 1
         else if even f then f else f + 1)"

definition round2 :: "rat \<Rightarrow> rat" where
  "round2 x = of_int (round_half_even (x * 100)) / 100"

text \<open>\<^verbatim>\<open>series.iloc[-1]\<close> and \<^verbatim>\<open>index[-1]\<close>: the last element, \<^verbatim>\<open>IndexError\<close> when there is
  none.\<close>

definition iloc_last :: "'a list \<Rightarrow> py_error + 'a" where
  "iloc_last xs = (if xs = [] then Inl IndexError else Inr (last xs))"

text \<open>\<^verbatim>\<open>Series.diff()\<close>: the first entry is missing, entry \<open>i\<close> is \<open>x\<^sub>i - x\<^sub>i\<^sub>-\<^sub>1\<close>, missing
  when either close is.\<close>

definition diff :: "rat option list \<Rightarrow> rat option list" where
  "diff xs =
     map (\<lambda>i. if i = 0 then None
              else (case xs ! i of
                      None \<Rightarrow> None
                    | Some a \<Rightarrow> (case xs ! (i - 1) of None \<Rightarrow> None | Some b \<Rightarrow> Some (a - b))))
         [0..<length xs]"

text \<open>\<^verbatim>\<open>delta.clip(lower=0)\<close> and \<^verbatim>\<open>-delta.clip(upper=0)\<close>; a missing entry stays missing.\<close>

definition gains_of :: "rat option list \<Rightarrow> rat option list" where
  "gains_of delta = map (map_option (\<lambda>d. max d 0)) delta"

definition losses_of :: "rat option list \<Rightarrow> rat option list" where
  "losses_of delta = map (map_option (\<lambda>d. - min d 0)) delta"

text \<open>\<^verbatim>\<open>rolling(window=w, min_periods=w).mean()\<close>: at index \<open>i\<close> the window is the last \<open>w\<close>
  entries up to \<open>i\<close> (fewer at the start); the mean is taken over the entries present, and
  is missing unless at least \<open>w\<close> of them (and at least one) are present.\<close>

definition window_mean :: "nat \<Rightarrow> rat option list \<Rightarrow> rat option" where
  "window_mean w win =
     (let obs = List.map_filter id win
      in if w \<le> length obs \<and> obs \<noteq> [] then Some (sum_list obs / of_nat (length obs))
         else None)"

definition rolling_mean :: "nat \<Rightarrow> rat option list \<Rightarrow> rat option list" where
  "rolling_mean w xs =
     map (\<lambda>i. window_mean w (drop (Suc i - w) (take (Suc i) xs))) [0..<length xs]"

text \<open>\<^verbatim>\<open>avg_loss.replace(0, pd.NA)\<close>.\<close>

definition replace_zero_na :: "rat option list \<Rightarrow> rat option list" where
  "replace_zero_na xs = map (\<lambda>v. if v = Some 0 then None else v) xs"

text \<open>Element-wise quotient of two series; missing when either operand is.\<close>

definition series_div :: "rat option list \<Rightarrow> rat option list \<Rightarrow> rat option list" where
  "series_div xs ys =
     map (\<lambda>(a, b). case a of None \<Rightarrow> None
                    | Some x \<Rightarrow> (case b of None \<Rightarrow> None | Some y \<Rightarrow> Some (x / y)))
         (zip xs ys)"

section \<open>RSI\<close>

text \<open>The body of the \<^verbatim>\<open>try\<close> block of \<^verbatim>\<open>compute_rsi\<close>. A negative window makes
  \<^verbatim>\<open>rolling\<close> raise \<^verbatim>\<open>ValueError\<close>.\<close>

definition rsi_body :: "rat option list option \<Rightarrow> int \<Rightarrow> py_error + rat option" where
  "rsi_body close_series period =
     (case close_series of
        None \<Rightarrow> Inr None
      | Some cs \<Rightarrow>
          if int (length cs) < period + 1 then Inr None
          else if period < 0 then Inl ValueError
          else
            (let delta = diff cs;
                 gains = gains_of delta;
                 losses = losses_of delta;
                 avg_gain = rolling_mean (nat period) gains;
                 avg_loss = rolling_mean (nat period) losses;
                 rs = series_div avg_gain (replace_zero_na avg_loss);
                 rsi_series = map (map_option (\<lambda>r. 100 - 100 / (1 + r))) rs
             in case iloc_last rsi_series of
                  Inl e \<Rightarrow> Inl e
                | Inr last_rsi \<Rightarrow> Inr (map_option round2 last_rsi)))"

text \<open>\<^verbatim>\<open>compute_rsi\<close>: any exception of the body is caught and turned into \<open>None\<close>.\<close>

definition compute_rsi :: "rat option list option \<Rightarrow> int \<Rightarrow> rat option" where
  "compute_rsi close_series period =
     (case rsi_body close_series period of Inl e \<Rightarrow> None | Inr v \<Rightarrow> v)"

section \<open>Alert evaluation\<close>

text \<open>The market-data provider: what \<^verbatim>\<open>Ticker(symbol).history(start, end)\<close> does for a
  symbol and a lookback in days, either raising or returning a data frame.\<close>

datatype fetch = Raised | Data "price_point list"

type_synonym provider = "string \<Rightarrow> int \<Rightarrow> fetch"

definition get_stock_data :: "config \<Rightarrow> provider \<Rightarrow> string \<Rightarrow> price_point list option" where
  "get_stock_data cfg yf symb =
     (case yf symb (case lookback_days cfg of None \<Rightarrow> 30 | Some d \<Rightarrow> d) of
        Raised \<Rightarrow> None
      | Data d \<Rightarrow> if d = [] then None else Some d)"

text \<open>\<^verbatim>\<open>Series.max()\<close>: the greatest cell that is not NaN, NaN when there is none.\<close>

definition series_max :: "rat option list \<Rightarrow> rat option" where
  "series_max xs =
     (let present = List.map_filter id xs
      in if present = [] then None else Some (Max (set present)))"

text \<open>\<^verbatim>\<open>==\<close> on two cells: NaN equals nothing.\<close>

definition cell_eq :: "rat option \<Rightarrow> rat option \<Rightarrow> bool" where
  "cell_eq a b = (case a of None \<Rightarrow> False | Some x \<Rightarrow> b = Some x)"

text \<open>The float operations of the evaluator. A difference or a product with a NaN is NaN;
  a quotient by zero is an infinity with the sign of the dividend, or NaN for 0 / 0; NaN
  is below nothing; rounding keeps NaN and the infinities.\<close>

definition float_sub :: "runtime \<Rightarrow> rat option \<Rightarrow> rat option \<Rightarrow> rat option" where
  "float_sub rt a b =
     (case a of None \<Rightarrow> None
      | Some x \<Rightarrow> (case b of None \<Rightarrow> None | Some y \<Rightarrow> Some (fl rt (x - y))))"

definition float_div :: "runtime \<Rightarrow> rat option \<Rightarrow> rat option \<Rightarrow> fval" where
  "float_div rt a b =
     (case a of None \<Rightarrow> NaN
      | Some x \<Rightarrow>
          (case b of None \<Rightarrow> NaN
           | Some y \<Rightarrow>
               if y = 0 then (if 0 < x then PInf else if x < 0 then NInf else NaN)
               else Fin (fl rt (x / y))))"

definition float_mul_100 :: "runtime \<Rightarrow> fval \<Rightarrow> fval" where
  "float_mul_100 rt v =
     (case v of Fin x \<Rightarrow> Fin (fl rt (x * 100)) | PInf \<Rightarrow> PInf | NInf \<Rightarrow> NInf | NaN \<Rightarrow> NaN)"

definition float_le :: "fval \<Rightarrow> rat \<Rightarrow> bool" where
  "float_le v y = (case v of Fin x \<Rightarrow> x \<le> y | PInf \<Rightarrow> False | NInf \<Rightarrow> True | NaN \<Rightarrow> False)"

definition round_fval :: "runtime \<Rightarrow> fval \<Rightarrow> fval" where
  "round_fval rt v =
     (case v of Fin x \<Rightarrow> Fin (round_2dp rt x) | PInf \<Rightarrow> PInf | NInf \<Rightarrow> NInf | NaN \<Rightarrow> NaN)"

definition round_cell :: "runtime \<Rightarrow> rat option \<Rightarrow> rat option" where
  "round_cell rt c = map_option (round_2dp rt) c"

text \<open>\<^verbatim>\<open>check_stock_alert\<close>. The default threshold is the float nearest to 0.05. The
  function has no \<^verbatim>\<open>try\<close> of its own, so an
  \<^verbatim>\<open>IndexError\<close> of \<^verbatim>\<open>iloc[-1]\<close> or \<^verbatim>\<open>index[-1]\<close> leaves it; \<open>Inr None\<close> is the
  \<^verbatim>\<open>return None\<close> for a symbol without data. When every high is NaN the maximum is NaN,
  no row equals it, and \<^verbatim>\<open>index[-1]\<close> raises.\<close>

definition check_stock_alert ::
    "runtime \<Rightarrow> config \<Rightarrow> provider \<Rightarrow> string \<Rightarrow> py_error + alert_result option" where
  "check_stock_alert rt cfg yf symb =
     (case get_stock_data cfg yf symb of
        None \<Rightarrow> Inr None
      | Some data \<Rightarrow>
          (case iloc_last (map Close data) of
             Inl e \<Rightarrow> Inl e
           | Inr price \<Rightarrow>
               (let high = series_max (map High data);
                    threshold = \<bar>case alert_threshold cfg of None \<Rightarrow> fl rt (5 / 100) | Some t \<Rightarrow> t\<bar>;
                    rsi_value = compute_rsi (Some (map Close data)) 14;
                    pct_change = float_div rt (float_sub rt price high) high;
                    alert = float_le pct_change (- threshold)
                in case iloc_last (filter (\<lambda>p. cell_eq (High p) high) data) of
                     Inl e \<Rightarrow> Inl e
                   | Inr row \<Rightarrow>
                       Inr (Some \<lparr>symbol = symb,
                                  current_price = round_cell rt price,
                                  recent_high = round_cell rt high,
                                  pct_from_high = round_fval rt (float_mul_100 rt pct_change),
                                  is_alert = alert,
                                  date_of_high = Date row,
                                  status = (if alert then ''ALERT'' else ''OK''),
                                  rsi = rsi_value\<rparr>))))"

section \<open>Application state\<close>

text \<open>The attributes of the module-level \<^verbatim>\<open>PortfolioMonitor\<close> object (\<open>config\<close> to
  \<open>last_scan_time\<close>, a time being a clock reading) together with the part of the
  environment its methods act on: how many threads were started and which of them are
  still inside \<^verbatim>\<open>_monitor_loop\<close>, the content of the
  configuration file and whether it can be written, how often \<^verbatim>\<open>save_config\<close> was called,
  the alert batches \<^verbatim>\<open>send_email_alert\<close> was called with, the messages handed to the SMTP
  server, and the flashed messages.\<close>

record email_message =
  msg_from :: string
  msg_to :: string
  subject_count :: nat
  body_alerts :: "alert_result list"
  generated_at :: nat

datatype flash =
    Updated_portfolio nat
  | Ticker_required
  | Thesis_updated
  | Invalid_entry_index
  | Removed_thesis string
  | Error_updating_thesis py_error
  | Error_deleting_thesis py_error

record app_state =
  config :: config
  monitoring :: bool
  monitor_thread :: "nat option"
  last_scan_results :: "alert_result list"
  last_scan_time :: "nat option"
  threads_started :: nat
  loops :: "nat list"
  config_file :: "config option"
  disk_writable :: bool
  save_calls :: nat
  notified :: "alert_result list list"
  outbox :: "email_message list"
  flashed :: "flash list"

text \<open>\<^verbatim>\<open>save_config()\<close> without argument: writes \<^verbatim>\<open>self.config\<close> to the file, or raises
  when the file cannot be written. The error, if any, is returned beside the state.\<close>

definition save_config :: "app_state \<Rightarrow> app_state \<times> py_error option" where
  "save_config st =
     (let st1 = st\<lparr>save_calls := Suc (save_calls st)\<rparr>
      in if disk_writable st then (st1\<lparr>config_file := Some (config st)\<rparr>, None)
         else (st1, Some OSError))"

section \<open>Email notification\<close>

text \<open>The SMTP session (connect, \<^verbatim>\<open>starttls\<close>, \<^verbatim>\<open>login\<close>, \<^verbatim>\<open>sendmail\<close>, \<^verbatim>\<open>quit\<close>) for a
  server, a port and a message: \<open>True\<close> when every call returned, \<open>False\<close> when one
  raised.\<close>

type_synonym smtp = "string \<Rightarrow> int \<Rightarrow> email_message \<Rightarrow> bool"

text \<open>The subject carries the number of alerts and the body one line per alert, in order;
  the message keeps the alerts themselves instead of the rendered lines.\<close>

definition send_email_alert :: "app_state \<Rightarrow> smtp \<Rightarrow> nat \<Rightarrow> alert_result list \<Rightarrow> bool \<times> app_state" where
  "send_email_alert st server now alerts =
     (let st1 = st\<lparr>notified := notified st @ [alerts]\<rparr>;
          email_config = (case email_settings (config st) of
                            None \<Rightarrow> \<lparr>enabled = None, smtp_server = None, smtp_port = None,
                                      sender_email = None, sender_password = None,
                                      recipient_email = None\<rparr>
                          | Some e \<Rightarrow> e)
      in if enabled email_config \<noteq> Some True then (False, st1)
         else
           (case sender_email email_config of
              None \<Rightarrow> (False, st1)
            | Some sender \<Rightarrow>
                (case sender_password email_config of
                   None \<Rightarrow> (False, st1)
                 | Some password \<Rightarrow>
                     (case recipient_email email_config of
                        None \<Rightarrow> (False, st1)
                      | Some recipient \<Rightarrow>
                          (let msg = \<lparr>msg_from = sender,
                                      msg_to = recipient,
                                      subject_count = length alerts,
                                      body_alerts = alerts,
                                      generated_at = now\<rparr>;
                               st2 = st1\<lparr>outbox := outbox st1 @ [msg]\<rparr>
                           in (server (case smtp_server email_config of
                                         None \<Rightarrow> ''smtp.gmail.com'' | Some h \<Rightarrow> h)
                                      (case smtp_port email_config of
                                         None \<Rightarrow> 587 | Some p \<Rightarrow> p)
                                      msg,
                               st2))))))"

section \<open>Scan\<close>

text \<open>The \<^verbatim>\<open>for\<close> loop of \<^verbatim>\<open>scan_portfolio\<close> with its two accumulators. An exception of
  \<^verbatim>\<open>check_stock_alert\<close> ends the loop and the scan: \<^verbatim>\<open>scan_portfolio\<close> has no \<^verbatim>\<open>try\<close>
  either, so the snapshot is not written and nothing is sent.\<close>

fun scan_loop :: "runtime \<Rightarrow> config \<Rightarrow> provider \<Rightarrow> string list \<Rightarrow> alert_result list
    \<Rightarrow> alert_result list \<Rightarrow> py_error + (alert_result list \<times> alert_result list)" where
  "scan_loop rt cfg yf [] alerts results = Inr (alerts, results)"
| "scan_loop rt cfg yf (symb # rest) alerts results =
     (case check_stock_alert rt cfg yf symb of
        Inl e \<Rightarrow> Inl e
      | Inr None \<Rightarrow> scan_loop rt cfg yf rest alerts results
      | Inr (Some result) \<Rightarrow>
          scan_loop rt cfg yf rest
            (if is_alert result then alerts @ [result] else alerts)
            (results @ [result]))"

definition email_enabled :: "config \<Rightarrow> bool" where
  "email_enabled cfg =
     (case email_settings cfg of None \<Rightarrow> False | Some e \<Rightarrow> enabled e = Some True)"

definition scan_portfolio :: "runtime \<Rightarrow> app_state \<Rightarrow> provider \<Rightarrow> smtp \<Rightarrow> nat
    \<Rightarrow> py_error + ((alert_result list \<times> alert_result list) \<times> app_state)" where
  "scan_portfolio rt st yf server now =
     (case scan_loop rt (config st) yf
             (case stocks (config st) of None \<Rightarrow> [] | Some l \<Rightarrow> l) [] [] of
        Inl e \<Rightarrow> Inl e
      | Inr (alerts, results) \<Rightarrow>
          (let st1 = st\<lparr>last_scan_results := results, last_scan_time := Some now\<rparr>;
               st2 = (if alerts \<noteq> [] \<and> email_enabled (config st1)
                      then snd (send_email_alert st1 server now alerts) else st1)
           in Inr ((alerts, results), st2)))"

section \<open>Monitoring thread\<close>

text \<open>\<^verbatim>\<open>start_monitoring\<close> and \<^verbatim>\<open>stop_monitoring\<close> with their return values. A started
  thread is named by its number and enters \<^verbatim>\<open>_monitor_loop\<close>. \<^verbatim>\<open>stop_monitoring\<close> clears
  the flag and waits at most one second for the thread; whether the thread tests the flag
  within that second is a matter of the order of events, so the wait itself changes
  nothing.\<close>

definition start_monitoring :: "app_state \<Rightarrow> bool \<times> app_state" where
  "start_monitoring st =
     (if monitoring st then (False, st)
      else (True, st\<lparr>monitoring := True,
                      monitor_thread := Some (threads_started st),
                      threads_started := Suc (threads_started st),
                      loops := loops st @ [threads_started st]\<rparr>))"

definition stop_monitoring :: "app_state \<Rightarrow> bool \<times> app_state" where
  "stop_monitoring st = (True, st\<lparr>monitoring := False\<rparr>)"

text \<open>The test of \<^verbatim>\<open>while self.monitoring\<close> by thread \<open>t\<close>, at its start and after each
  sleep: with the flag cleared the thread leaves the loop and ends, otherwise it goes on
  to scan and sleep. Of the loop only this test is modelled.\<close>

definition loop_test :: "nat \<Rightarrow> app_state \<Rightarrow> app_state" where
  "loop_test t st = (if monitoring st then st else st\<lparr>loops := removeAll t (loops st)\<rparr>)"

datatype call = Start | Stop

fun run_calls :: "call list \<Rightarrow> app_state \<Rightarrow> bool list \<times> app_state" where
  "run_calls [] st = ([], st)"
| "run_calls (Start # cs) st =
     (let (r, st1) = start_monitoring st; (rs, st2) = run_calls cs st1 in (r # rs, st2))"
| "run_calls (Stop # cs) st =
     (let (r, st1) = stop_monitoring st; (rs, st2) = run_calls cs st1 in (r # rs, st2))"

text \<open>The scheduler as the specification words it: two states, \<open>start\<close> succeeds from
  \<open>Stopped\<close> and fails from \<open>Running\<close>, \<open>stop\<close> always succeeds and ends in \<open>Stopped\<close>.\<close>

datatype scheduler_state = Stopped | Running

fun spec_start :: "scheduler_state \<Rightarrow> bool \<times> scheduler_state" where
  "spec_start Stopped = (True, Running)"
| "spec_start Running = (False, Running)"

fun spec_stop :: "scheduler_state \<Rightarrow> bool \<times> scheduler_state" where
  "spec_stop s = (True, Stopped)"

fun spec_run :: "call list \<Rightarrow> scheduler_state \<Rightarrow> bool list \<times> scheduler_state" where
  "spec_run [] s = ([], s)"
| "spec_run (Start # cs) s =
     (let (r, s1) = spec_start s; (rs, s2) = spec_run cs s1 in (r # rs, s2))"
| "spec_run (Stop # cs) s =
     (let (r, s1) = spec_stop s; (rs, s2) = spec_run cs s1 in (r # rs, s2))"

definition scheduler_state_of :: "app_state \<Rightarrow> scheduler_state" where
  "scheduler_state_of st = (if monitoring st then Running else Stopped)"

section \<open>Form handlers\<close>

text \<open>ASCII white space as \<^verbatim>\<open>str.isspace\<close> sees it: codes 9 to 13, 28 to 31 and 32.\<close>

definition isspace :: "char \<Rightarrow> bool" where
  "isspace c = (let n = (of_char c :: nat) in (9 \<le> n \<and> n \<le> 13) \<or> (28 \<le> n \<and> n \<le> 32))"

definition strip :: "string \<Rightarrow> string" where
  "strip s = rev (dropWhile isspace (rev (dropWhile isspace s)))"

definition upper_char :: "char \<Rightarrow> char" where
  "upper_char c =
     (let n = (of_char c :: nat) in if 97 \<le> n \<and> n \<le> 122 then char_of (n - 32) else c)"

definition upper :: "string \<Rightarrow> string" where
  "upper s = map upper_char s"

text \<open>\<^verbatim>\<open>s.replace(',', '\n')\<close> and \<^verbatim>\<open>s.split('\n')\<close>; the split of a text with \<open>k\<close> newlines
  has \<open>k + 1\<close> pieces, empty ones included.\<close>

definition replace_comma :: "string \<Rightarrow> string" where
  "replace_comma s = map (\<lambda>c. if c = CHR '','' then CHR 0x0A else c) s"

fun split_lines :: "string \<Rightarrow> string list" where
  "split_lines [] = [[]]"
| "split_lines (c # cs) =
     (if c = CHR 0x0A then [] # split_lines cs
      else (case split_lines cs of [] \<Rightarrow> [[c]] | p # ps \<Rightarrow> (c # p) # ps))"

text \<open>The list comprehension of \<^verbatim>\<open>update_stocks\<close>.\<close>

definition parse_stocks :: "string \<Rightarrow> string list" where
  "parse_stocks stocks_text =
     map (\<lambda>s. upper (strip s))
         (filter (\<lambda>s. strip s \<noteq> []) (split_lines (replace_comma stocks_text)))"

text \<open>\<^verbatim>\<open>request.form.get(key, '')\<close>: the empty text for a missing field.\<close>

definition form_get :: "string option \<Rightarrow> string" where
  "form_get v = (case v of None \<Rightarrow> [] | Some t \<Rightarrow> t)"

text \<open>\<^verbatim>\<open>update_stocks\<close>: the handler has no \<^verbatim>\<open>try\<close>, so an error of \<^verbatim>\<open>save_config\<close> leaves
  it, after the list in memory has been replaced.\<close>

definition update_stocks :: "app_state \<Rightarrow> string option \<Rightarrow> app_state \<times> py_error option" where
  "update_stocks st form_stocks =
     (let stocks_text = form_get form_stocks;
          new_stocks = parse_stocks stocks_text;
          st1 = st\<lparr>config := (config st)\<lparr>stocks := Some new_stocks\<rparr>\<rparr>;
          (st2, err) = save_config st1
      in case err of
           Some e \<Rightarrow> (st2, Some e)
         | None \<Rightarrow> (st2\<lparr>flashed := flashed st2 @ [Updated_portfolio (length new_stocks)]\<rparr>, None))"

record thesis_form =
  form_ticker :: "string option"
  form_thesis :: "string option"
  form_trigger :: "string option"

definition flash_msg :: "app_state \<Rightarrow> flash \<Rightarrow> app_state" where
  "flash_msg st m = st\<lparr>flashed := flashed st @ [m]\<rparr>"

text \<open>\<^verbatim>\<open>update_thesis\<close>: an empty ticker returns early; a valid index rewrites the entry and
  saves; any other index only flashes. An error of \<^verbatim>\<open>save_config\<close> is caught.\<close>

definition update_thesis :: "app_state \<Rightarrow> thesis_form \<Rightarrow> int \<Rightarrow> app_state" where
  "update_thesis st form index =
     (let new_ticker = upper (strip (form_get (form_ticker form)));
          thesis_text = strip (form_get (form_thesis form));
          trigger_text = strip (form_get (form_trigger form))
      in if new_ticker = [] then flash_msg st Ticker_required
         else
           (let entries = (case thesis_entries (config st) of None \<Rightarrow> [] | Some es \<Rightarrow> es)
            in if 0 \<le> index \<and> index < int (length entries) then
                 (let entries1 = entries[nat index :=
                        (entries ! nat index)\<lparr>ticker := new_ticker, thesis := thesis_text,
                                                trigger := trigger_text\<rparr>];
                      st1 = st\<lparr>config := (config st)\<lparr>thesis_entries := Some entries1\<rparr>\<rparr>;
                      (st2, err) = save_config st1
                  in case err of
                       None \<Rightarrow> flash_msg st2 Thesis_updated
                     | Some e \<Rightarrow> flash_msg st2 (Error_updating_thesis e))
               else flash_msg st Invalid_entry_index))"

text \<open>\<^verbatim>\<open>delete_thesis\<close>: \<^verbatim>\<open>entries.pop(index)\<close> for a valid index, a flash otherwise.\<close>

definition delete_thesis :: "app_state \<Rightarrow> int \<Rightarrow> app_state" where
  "delete_thesis st index =
     (let entries = (case thesis_entries (config st) of None \<Rightarrow> [] | Some es \<Rightarrow> es)
      in if 0 \<le> index \<and> index < int (length entries) then
           (let removed = entries ! nat index;
                entries1 = take (nat index) entries @ drop (Suc (nat index)) entries;
                st1 = st\<lparr>config := (config st)\<lparr>thesis_entries := Some entries1\<rparr>\<rparr>;
                (st2, err) = save_config st1
            in case err of
                 None \<Rightarrow> flash_msg st2 (Removed_thesis (ticker removed))
               | Some e \<Rightarrow> flash_msg st2 (Error_deleting_thesis e))
         else flash_msg st Invalid_entry_index)"

section \<open>The float64 runtime\<close>

text \<open>Rounding to the nearest float64, ties to even, for values in the normal range: the
  magnitude \<open>p / q\<close> is scaled by powers of two until it lies between \<open>2\<^sup>5\<^sup>2\<close> and \<open>2\<^sup>5\<^sup>3\<close>,
  rounded to an integer and scaled back. With it, \<^verbatim>\<open>round(x, 2)\<close> of numpy: times 100, to
  the nearest integer, divided by 100.\<close>

fun scale_sig :: "nat \<Rightarrow> int \<Rightarrow> int \<Rightarrow> int \<Rightarrow> int \<times> int \<times> int" where
  "scale_sig 0 p q e = (p, q, e)"
| "scale_sig (Suc n) p q e =
     (if 9007199254740992 * q \<le> p then scale_sig n p (q * 2) (e + 1)
      else if p < 4503599627370496 * q then scale_sig n (p * 2) q (e - 1)
      else (p, q, e))"

definition round_div_half_even :: "int \<Rightarrow> int \<Rightarrow> int" where
  "round_div_half_even p q =
     (let f = p div q; r = p mod q
      in if 2 * r < q then f
         else if q < 2 * r then f + 1
         else if even f then f else f + 1)"

definition pow2 :: "int \<Rightarrow> rat" where
  "pow2 e = (if 0 \<le> e then of_int (2 ^ nat e) else 1 / of_int (2 ^ nat (- e)))"

definition binary64 :: "rat \<Rightarrow> rat" where
  "binary64 x =
     (if x = 0 then 0
      else (let (p, q) = quotient_of \<bar>x\<bar>;
                (p1, q1, e) = scale_sig 1100 p q 0
            in sgn x * of_int (round_div_half_even p1 q1) * pow2 e))"

definition np_round2 :: "rat \<Rightarrow> rat" where
  "np_round2 x = binary64 (of_int (round_half_even (binary64 (x * 100))) / 100)"

definition float64 :: runtime where
  "float64 = \<lparr>fl = binary64, round_2dp = np_round2\<rparr>"

section \<open>Sample configuration and data\<close>

text \<open>The float64 values nearest to 0.05, 2.85 and 93.752.\<close>

definition double_0_05 :: rat where
  "double_0_05 = 3602879701896397 / 72057594037927936"

definition double_2_85 :: rat where
  "double_2_85 = 6417629469002957 / 2251799813685248"

definition double_93_752 :: rat where
  "double_93_752 = 6597210504144355 / 70368744177664"

text \<open>The default configuration that \<^verbatim>\<open>load_config\<close> creates when there is no file, with
  the threshold 0.05 as the float64 it is stored as, and the state after
  \<^verbatim>\<open>PortfolioMonitor()\<close> has written it.\<close>

definition default_config :: config where
  "default_config =
     \<lparr>stocks = Some [],
      alert_threshold = Some double_0_05,
      lookback_days = Some 30,
      scan_interval_minutes = Some 30,
      tradingview_url = Some [],
      thesis_entries = Some [],
      email_settings =
        Some \<lparr>enabled = Some False, smtp_server = Some ''smtp.gmail.com'',
              smtp_port = Some 587, sender_email = Some [], sender_password = Some [],
              recipient_email = Some []\<rparr>\<rparr>"

definition initial_state :: app_state where
  "initial_state =
     \<lparr>config = default_config, monitoring = False, monitor_thread = None,
      last_scan_results = [], last_scan_time = None, threads_started = 0, loops = [],
      config_file = Some default_config, disk_writable = True, save_calls = 1,
      notified = [], outbox = [], flashed = []\<rparr>"

text \<open>A daily bar with a given date, high and close, and a bar whose cells are all NaN.\<close>

definition bar :: "string \<Rightarrow> rat \<Rightarrow> rat \<Rightarrow> price_point" where
  "bar d h c =
     \<lparr>Date = d, Open = Some c, High = Some h, Low = Some c, Close = Some c,
      Volume = Some 1000\<rparr>"

definition nan_bar :: "string \<Rightarrow> price_point" where
  "nan_bar d = \<lparr>Date = d, Open = None, High = None, Low = None, Close = None, Volume = None\<rparr>"

text \<open>Ten days with the high of 100 on the third and on the seventh day and a last close
  of 90.\<close>

definition ten_days :: "price_point list" where
  "ten_days =
     [bar ''2024-03-01'' 96 95, bar ''2024-03-04'' 98 97, bar ''2024-03-05'' 100 99,
      bar ''2024-03-06'' 99 98, bar ''2024-03-07'' 98 96, bar ''2024-03-08'' 99 98,
      bar ''2024-03-11'' 100 97, bar ''2024-03-12'' 97 94, bar ''2024-03-13'' 95 92,
      bar ''2024-03-14'' 93 90]"

text \<open>What the evaluator reports for the ten days.\<close>

definition ten_days_result :: alert_result where
  "ten_days_result =
     \<lparr>symbol = ''AAA'', current_price = Some 90, recent_high = Some 100,
      pct_from_high = Fin (- 10), is_alert = True, date_of_high = ''2024-03-11'',
      status = ''ALERT'', rsi = None\<rparr>"

text \<open>One day with a high of 100 and a close of 93.752, under a threshold of 0.0625 (6.25
  per cent, a float64 as it stands), and what the evaluator reports for it.\<close>

definition near_boundary_day :: "price_point list" where
  "near_boundary_day = [bar ''2024-03-14'' 100 double_93_752]"

definition sixteenth_config :: config where
  "sixteenth_config = default_config\<lparr>alert_threshold := Some (1 / 16)\<rparr>"

definition boundary_result :: alert_result where
  "boundary_result =
     \<lparr>symbol = ''AAA'', current_price = Some (9375 / 100), recent_high = Some 100,
      pct_from_high = Fin (- (625 / 100)), is_alert = False, date_of_high = ''2024-03-14'',
      status = ''OK'', rsi = None\<rparr>"

text \<open>One day with a high of 3.0 and a close of 2.85, and one with a high of 100 and a close
  of 95: a drop of five per cent in exact arithmetic.\<close>

definition five_percent_of_three :: "price_point list" where
  "five_percent_of_three = [bar ''2024-03-14'' 3 double_2_85]"

definition five_percent_of_hundred :: "price_point list" where
  "five_percent_of_hundred = [bar ''2024-03-14'' 100 95]"

text \<open>What the evaluator reports for them under the default threshold, the float64 nearest
  to 0.05.\<close>

definition three_result :: alert_result where
  "three_result =
     \<lparr>symbol = ''AAA'', current_price = Some double_2_85, recent_high = Some 3,
      pct_from_high = Fin (- 5), is_alert = False, date_of_high = ''2024-03-14'',
      status = ''OK'', rsi = None\<rparr>"

definition hundred_result :: alert_result where
  "hundred_result =
     \<lparr>symbol = ''AAA'', current_price = Some 95, recent_high = Some 100,
      pct_from_high = Fin (- 5), is_alert = True, date_of_high = ''2024-03-14'',
      status = ''ALERT'', rsi = None\<rparr>"

text \<open>A frame of one row that holds NaN only: not empty, and without a high.\<close>

definition nan_day :: "price_point list" where
  "nan_day = [nan_bar ''2024-03-14'']"

text \<open>Fifteen closes rising by one a day.\<close>

definition rising_values :: "rat list" where
  "rising_values = [1, 2, 3, 4, 5, 6, 7, 8, 9, 10, 11, 12, 13, 14, 15]"

definition rising_closes :: "rat option list" where
  "rising_closes = map Some rising_values"

text \<open>Providers: one that knows \<^verbatim>\<open>AAA\<close> and has an empty frame for every other symbol;
  one that serves the near-boundary day, one for each of the five-per-cent days; and one
  that knows \<^verbatim>\<open>AAA\<close>, returns the NaN row for \<^verbatim>\<open>NANS\<close> and an empty frame otherwise.\<close>

definition only_aaa :: provider where
  "only_aaa symb days = (if symb = ''AAA'' then Data ten_days else Data [])"

definition boundary_market :: provider where
  "boundary_market symb days = Data near_boundary_day"

definition three_market :: provider where
  "three_market symb days = Data five_percent_of_three"

definition hundred_market :: provider where
  "hundred_market symb days = Data five_percent_of_hundred"

definition nan_market :: provider where
  "nan_market symb days =
     (if symb = ''AAA'' then Data ten_days
      else if symb = ''NANS'' then Data nan_day else Data [])"

text \<open>An SMTP server that refuses every session, and one that accepts every session.\<close>

definition failing_smtp :: smtp where
  "failing_smtp host port msg = False"

definition working_smtp :: smtp where
  "working_smtp host port msg = True"

definition mail_config :: config where
  "mail_config =
     default_config
       \<lparr>stocks := Some [''AAA'', ''BBB''],
        email_settings :=
          Some \<lparr>enabled = Some True, smtp_server = Some ''smtp.gmail.com'',
                smtp_port = Some 587, sender_email = Some ''me@example.org'',
                sender_password = Some ''secret'',
                recipient_email = Some ''you@example.org''\<rparr>\<rparr>"

text \<open>The same with the symbols \<^verbatim>\<open>AAA\<close> and \<^verbatim>\<open>NANS\<close>.\<close>

definition nan_config :: config where
  "nan_config = mail_config\<lparr>stocks := Some [''AAA'', ''NANS'']\<rparr>"

definition one_thesis :: "thesis_entry list" where
  "one_thesis =
     [\<lparr>ticker = ''MSFT'', thesis = ''cloud'', trigger = ''RSI below 30'',
       created_at = ''2024-03-14 10:00:00''\<rparr>]"

definition thesis_state :: app_state where
  "thesis_state =
     initial_state
       \<lparr>config := default_config\<lparr>thesis_entries := Some one_thesis\<rparr>,
        config_file := Some (default_config\<lparr>thesis_entries := Some one_thesis\<rparr>),
        save_calls := 2\<rparr>"

definition sample_form :: thesis_form where
  "sample_form =
     \<lparr>form_ticker = Some ''aapl'', form_thesis = Some ''services'',
      form_trigger = Some ''breakout''\<rparr>"

section \<open>Alert evaluation: results\<close>

lemma get_stock_data_nonempty: "get_stock_data cfg yf symb = Some d \<Longrightarrow> d \<noteq> []"
  by (auto simp: get_stock_data_def split: fetch.splits if_splits)

lemma get_stock_data_threshold:
  "get_stock_data (cfg\<lparr>alert_threshold := t\<rparr>) yf symb = get_stock_data cfg yf symb"
  by (simp add: get_stock_data_def)

lemma cell_eq_Some: "cell_eq a (Some h) \<longleftrightarrow> a = Some h"
  by (cases a) (auto simp: cell_eq_def)

lemma cell_eq_None: "\<not> cell_eq a None"
  by (cases a) (auto simp: cell_eq_def)

lemma set_map_filter_id: "set (List.map_filter id xs) = {x. Some x \<in> set xs}"
  by (induction xs) (auto simp: List.map_filter_simps split: option.splits)

text \<open>A maximum that is not NaN is the high of some row; NaN equals the high of none.\<close>

lemma series_max_row_exists:
  assumes "series_max (map High d) = Some h"
  shows "filter (\<lambda>p. cell_eq (High p) (Some h)) d \<noteq> []"
proof -
  let ?present = "List.map_filter id (map High d)"
  have ne: "?present \<noteq> []" and h: "h = Max (set ?present)"
    using assms by (auto simp: series_max_def Let_def split: if_splits)
  have "Max (set ?present) \<in> set ?present"
    using ne by (intro Max_in) auto
  then have "h \<in> set ?present"
    by (simp only: h)
  then have "Some h \<in> set (map High d)"
    by (simp only: set_map_filter_id mem_Collect_eq)
  then obtain p where "p \<in> set d" "High p = Some h"
    by auto
  then have "\<exists>p \<in> set d. cell_eq (High p) (Some h)"
    unfolding cell_eq_Some by blast
  then show ?thesis
    by (simp add: filter_empty_conv)
qed

lemma no_row_equals_nan: "filter (\<lambda>p. cell_eq (High p) None) d = []"
  by (simp add: filter_empty_conv cell_eq_None)

text \<open>With data and a maximum high, \<open>check_stock_alert\<close> returns a result whose fields
  are these.\<close>

lemma check_stock_alert_data:
  assumes "get_stock_data cfg yf symb = Some d"
    and "series_max (map High d) = Some h"
  shows "check_stock_alert rt cfg yf symb =
     Inr (Some \<lparr>symbol = symb,
        current_price = round_cell rt (Close (last d)),
        recent_high = round_cell rt (Some h),
        pct_from_high =
          round_fval rt (float_mul_100 rt
            (float_div rt (float_sub rt (Close (last d)) (Some h)) (Some h))),
        is_alert = float_le (float_div rt (float_sub rt (Close (last d)) (Some h)) (Some h))
                     (- \<bar>case alert_threshold cfg of None \<Rightarrow> fl rt (5 / 100) | Some t \<Rightarrow> t\<bar>),
        date_of_high = Date (last (filter (\<lambda>p. cell_eq (High p) (Some h)) d)),
        status = (if float_le (float_div rt (float_sub rt (Close (last d)) (Some h)) (Some h))
                       (- \<bar>case alert_threshold cfg of None \<Rightarrow> fl rt (5 / 100) | Some t \<Rightarrow> t\<bar>)
                  then ''ALERT'' else ''OK''),
        rsi = compute_rsi (Some (map Close d)) 14\<rparr>)"
proof -
  have ne: "d \<noteq> []" using assms(1) by (rule get_stock_data_nonempty)
  have rows: "filter (\<lambda>p. cell_eq (High p) (Some h)) d \<noteq> []"
    using assms(2) by (rule series_max_row_exists)
  show ?thesis
    using ne rows assms
    by (simp add: check_stock_alert_def iloc_last_def Let_def last_map)
qed

text \<open>With data whose highs are all NaN, it raises.\<close>

lemma check_stock_alert_nan_high:
  assumes "get_stock_data cfg yf symb = Some d"
    and "series_max (map High d) = None"
  shows "check_stock_alert rt cfg yf symb = Inl IndexError"
proof -
  have ne: "d \<noteq> []" using assms(1) by (rule get_stock_data_nonempty)
  show ?thesis
    using ne assms
    by (simp add: check_stock_alert_def iloc_last_def Let_def no_row_equals_nan)
qed

lemma check_stock_alert_no_data:
  "get_stock_data cfg yf symb = None \<Longrightarrow> check_stock_alert rt cfg yf symb = Inr None"
  by (simp add: check_stock_alert_def)

lemma check_stock_alert_result_has_max:
  assumes "get_stock_data cfg yf symb = Some d"
    and "check_stock_alert rt cfg yf symb = Inr (Some r)"
  shows "\<exists>h. series_max (map High d) = Some h"
proof (cases "series_max (map High d)")
  case None
  with assms show ?thesis by (simp add: check_stock_alert_nan_high)
next
  case (Some h)
  then show ?thesis by simp
qed

lemma last_filter_nth:
  assumes "i < length xs" "P (xs ! i)" "\<forall>x \<in> set (drop (Suc i) xs). \<not> P x"
  shows "last (filter P xs) = xs ! i"
proof -
  have split: "xs = take i xs @ xs ! i # drop (Suc i) xs"
    using assms(1) by (rule id_take_nth_drop)
  have "filter P (drop (Suc i) xs) = []"
    using assms(3) by (simp add: filter_empty_conv)
  then have "filter P xs = filter P (take i xs) @ [xs ! i]"
    using assms(2) by (subst split) simp
  then show ?thesis by simp
qed

subsection \<open>The alert test\<close>

text \<open>
  Against C1 as worded. One day with a high of 100 and a close of 93.752 under a threshold
  of 0.0625, in float64: the drop is 0.06248, short of the threshold, so there is no
  alert; yet the reported percentage is -6.25, and -6.25 / 100 \<le> -0.0625 holds, in exact
  and in float arithmetic alike. The alert test does not read the rounded percentage.
\<close>

theorem is_alert_compares_rounded_counterexample:
  "check_stock_alert float64 sixteenth_config boundary_market ''AAA'' = Inr (Some boundary_result)
   \<and> alert_threshold sixteenth_config = Some (1 / 16)
   \<and> pct_from_high boundary_result = Fin (- (625 / 100))
   \<and> \<not> (is_alert boundary_result \<longleftrightarrow> (- (625 / 100) :: rat) / 100 \<le> - (1 / 16))
   \<and> \<not> (is_alert boundary_result \<longleftrightarrow>
          float_le (float_div float64 (Some (- (625 / 100))) (Some 100)) (- (1 / 16)))"
  by code_simp

text \<open>
  C1 (amended). For a history with data, a configured threshold \<open>t\<close> and every rounding
  of the runtime, when \<open>check_stock_alert\<close> returns a result its \<open>is_alert\<close> is the float
  test of the quotient (current price - recent high) / recent high, as computed and not
  rounded to two decimals, against \<open>- \<bar>t\<bar>\<close>; the reported \<open>pct_from_high\<close> is that
  quotient times 100, rounded to two decimals, and is not what the test compares. For a
  finite close \<open>c\<close> and a recent high \<open>h\<close> other than zero, \<open>is_alert\<close> holds exactly when
  \<open>fl (fl (c - h) / h) \<le> - \<bar>t\<bar>\<close>, equality of the computed quotient included.
\<close>

theorem is_alert_iff_unrounded_drop:
  assumes "get_stock_data cfg yf symb = Some d"
    and "alert_threshold cfg = Some t"
    and "check_stock_alert rt cfg yf symb = Inr (Some r)"
  shows "is_alert r =
           float_le (float_div rt (float_sub rt (Close (last d)) (series_max (map High d)))
                       (series_max (map High d))) (- \<bar>t\<bar>)
       \<and> pct_from_high r =
           round_fval rt (float_mul_100 rt
             (float_div rt (float_sub rt (Close (last d)) (series_max (map High d)))
                (series_max (map High d))))
       \<and> (Close (last d) = Some c \<and> series_max (map High d) = Some h \<and> h \<noteq> 0 \<longrightarrow>
            (is_alert r \<longleftrightarrow> fl rt (fl rt (c - h) / h) \<le> - \<bar>t\<bar>)
            \<and> pct_from_high r = Fin (round_2dp rt (fl rt (fl rt (fl rt (c - h) / h) * 100))))"
proof -
  obtain m where m: "series_max (map High d) = Some m"
    using check_stock_alert_result_has_max [OF assms(1,3)] by blast
  have r: "r = \<lparr>symbol = symb,
        current_price = round_cell rt (Close (last d)),
        recent_high = round_cell rt (Some m),
        pct_from_high =
          round_fval rt (float_mul_100 rt
            (float_div rt (float_sub rt (Close (last d)) (Some m)) (Some m))),
        is_alert = float_le (float_div rt (float_sub rt (Close (last d)) (Some m)) (Some m))
                     (- \<bar>t\<bar>),
        date_of_high = Date (last (filter (\<lambda>p. cell_eq (High p) (Some m)) d)),
        status = (if float_le (float_div rt (float_sub rt (Close (last d)) (Some m)) (Some m))
                       (- \<bar>t\<bar>)
                  then ''ALERT'' else ''OK''),
        rsi = compute_rsi (Some (map Close d)) 14\<rparr>"
    using assms(2,3) unfolding check_stock_alert_data [OF assms(1) m] by simp
  show ?thesis
    unfolding r m
    by (simp add: float_le_def float_div_def float_sub_def float_mul_100_def round_fval_def)
qed

theorem is_alert_iff_unrounded_drop_witness:
  "get_stock_data default_config three_market ''AAA'' = Some five_percent_of_three
   \<and> alert_threshold default_config = Some double_0_05
   \<and> check_stock_alert float64 default_config three_market ''AAA'' = Inr (Some three_result)
   \<and> Close (last five_percent_of_three) = Some double_2_85
   \<and> series_max (map High five_percent_of_three) = Some 3
   \<and> (3 :: rat) \<noteq> 0
   \<and> \<not> is_alert three_result
   \<and> \<not> fl float64 (fl float64 (double_2_85 - 3) / 3) \<le> - \<bar>double_0_05\<bar>
   \<and> get_stock_data default_config hundred_market ''AAA'' = Some five_percent_of_hundred
   \<and> check_stock_alert float64 default_config hundred_market ''AAA'' = Inr (Some hundred_result)
   \<and> Close (last five_percent_of_hundred) = Some 95
   \<and> series_max (map High five_percent_of_hundred) = Some 100
   \<and> is_alert hundred_result
   \<and> fl float64 (fl float64 (95 - 100) / 100) = - \<bar>double_0_05\<bar>"
proof -
  have t: "alert_threshold default_config = Some double_0_05" by code_simp
  have a1: "get_stock_data default_config three_market ''AAA'' = Some five_percent_of_three"
    by code_simp
  have a2: "check_stock_alert float64 default_config three_market ''AAA'' = Inr (Some three_result)"
    by code_simp
  have a3: "Close (last five_percent_of_three) = Some double_2_85
      \<and> series_max (map High five_percent_of_three) = Some 3 \<and> (3 :: rat) \<noteq> 0"
    by code_simp
  have a4: "\<not> is_alert three_result" by code_simp
  have b1: "get_stock_data default_config hundred_market ''AAA'' = Some five_percent_of_hundred"
    by code_simp
  have b2: "check_stock_alert float64 default_config hundred_market ''AAA'' = Inr (Some hundred_result)"
    by code_simp
  have b3: "Close (last five_percent_of_hundred) = Some 95
      \<and> series_max (map High five_percent_of_hundred) = Some 100 \<and> (100 :: rat) \<noteq> 0"
    by code_simp
  have b4: "is_alert hundred_result" by code_simp
  have b5: "fl float64 (fl float64 (95 - 100) / 100) = - \<bar>double_0_05\<bar>" by code_simp
  from is_alert_iff_unrounded_drop [OF a1 t a2, of double_2_85 3] a3 a4
  have c1: "\<not> fl float64 (fl float64 (double_2_85 - 3) / 3) \<le> - \<bar>double_0_05\<bar>"
    by blast
  from is_alert_iff_unrounded_drop [OF b1 t b2, of 95 100] b3
  have c2: "is_alert hundred_result \<longleftrightarrow> fl float64 (fl float64 (95 - 100) / 100) \<le> - \<bar>double_0_05\<bar>"
    by blast
  from t a1 a2 a3 a4 c1 b1 b2 b3 b4 b5 c2 show ?thesis by blast
qed

subsection \<open>Date of the high\<close>

text \<open>
  C4. When row \<open>i\<close> of the history carries the maximum high and no later row does, the
  reported \<open>date_of_high\<close> is the date of row \<open>i\<close>: among several rows with the maximum,
  the last one.
\<close>

theorem date_of_high_is_last_occurrence:
  assumes "get_stock_data cfg yf symb = Some d"
    and "check_stock_alert rt cfg yf symb = Inr (Some r)"
    and "i < length d"
    and "High (d ! i) = series_max (map High d)"
    and "series_max (map High d) \<notin> set (map High (drop (Suc i) d))"
  shows "date_of_high r = Date (d ! i)"
proof -
  obtain m where m: "series_max (map High d) = Some m"
    using check_stock_alert_result_has_max [OF assms(1,2)] by blast
  have here: "cell_eq (High (d ! i)) (Some m)"
    using assms(4) m by (simp add: cell_eq_Some)
  have later: "\<forall>p \<in> set (drop (Suc i) d). \<not> cell_eq (High p) (Some m)"
  proof
    fix p assume "p \<in> set (drop (Suc i) d)"
    then have "High p \<in> set (map High (drop (Suc i) d))" by simp
    with assms(5) m have "High p \<noteq> Some m" by metis
    then show "\<not> cell_eq (High p) (Some m)"
      by (simp add: cell_eq_Some)
  qed
  have "last (filter (\<lambda>p. cell_eq (High p) (Some m)) d) = d ! i"
    using assms(3) here later by (rule last_filter_nth)
  then show ?thesis
    using assms(2) unfolding check_stock_alert_data [OF assms(1) m] by auto
qed

theorem date_of_high_is_last_occurrence_witness:
  "get_stock_data default_config only_aaa ''AAA'' = Some ten_days
   \<and> check_stock_alert float64 default_config only_aaa ''AAA'' = Inr (Some ten_days_result)
   \<and> 6 < length ten_days
   \<and> High (ten_days ! 2) = series_max (map High ten_days)
   \<and> High (ten_days ! 6) = series_max (map High ten_days)
   \<and> series_max (map High ten_days) \<notin> set (map High (drop (Suc 6) ten_days))
   \<and> Date (ten_days ! 6) = ''2024-03-11''"
proof -
  have h1: "get_stock_data default_config only_aaa ''AAA'' = Some ten_days" by code_simp
  have h2: "check_stock_alert float64 default_config only_aaa ''AAA'' = Inr (Some ten_days_result)"
    by code_simp
  have h3: "6 < length ten_days" by code_simp
  have h4: "High (ten_days ! 6) = series_max (map High ten_days)" by code_simp
  have h5: "series_max (map High ten_days) \<notin> set (map High (drop (Suc 6) ten_days))"
    by code_simp
  have tie: "High (ten_days ! 2) = series_max (map High ten_days)" by code_simp
  from date_of_high_is_last_occurrence [OF h1 h2 h3 h4 h5]
  have "Date (ten_days ! 6) = ''2024-03-11''" by (simp add: ten_days_result_def)
  with h1 h2 h3 h4 h5 tie show ?thesis by blast
qed

subsection \<open>Sign of the threshold\<close>

text \<open>
  C9. A configured threshold \<open>t\<close> and the threshold \<open>\<bar>t\<bar>\<close> give the same outcome of
  \<open>check_stock_alert\<close>, for every history and every \<open>t\<close>, negative and zero included.
\<close>

theorem abs_threshold_same_result:
  "check_stock_alert rt (cfg\<lparr>alert_threshold := Some t\<rparr>) yf symb =
   check_stock_alert rt (cfg\<lparr>alert_threshold := Some \<bar>t\<bar>\<rparr>) yf symb"
proof (cases "get_stock_data cfg yf symb")
  case None
  then show ?thesis by (simp add: check_stock_alert_no_data get_stock_data_threshold)
next
  case (Some d)
  show ?thesis
  proof (cases "series_max (map High d)")
    case None
    with Some show ?thesis
      by (simp add: check_stock_alert_nan_high get_stock_data_threshold)
  next
    case (Some h)
    with \<open>get_stock_data cfg yf symb = Some d\<close> show ?thesis
      by (simp add: check_stock_alert_data get_stock_data_threshold)
  qed
qed

section \<open>RSI: results\<close>

lemma length_diff: "length (diff cs) = length cs"
  by (simp add: diff_def)

lemma length_gains_of: "length (gains_of xs) = length xs"
  by (simp add: gains_of_def)

lemma length_losses_of: "length (losses_of xs) = length xs"
  by (simp add: losses_of_def)

lemma length_rolling_mean: "length (rolling_mean w xs) = length xs"
  by (simp add: rolling_mean_def)

lemma length_replace_zero_na: "length (replace_zero_na xs) = length xs"
  by (simp add: replace_zero_na_def)

lemma last_replace_zero_na:
  "xs \<noteq> [] \<Longrightarrow> last xs = Some 0 \<Longrightarrow> last (replace_zero_na xs) = None"
  by (simp add: replace_zero_na_def last_map)

lemma series_div_last_missing:
  assumes "length xs = length ys" "ys \<noteq> []" "last ys = None"
  shows "series_div xs ys \<noteq> [] \<and> last (series_div xs ys) = None"
proof -
  obtain k where k: "length ys = Suc k"
    using assms(2) by (cases ys) auto
  have len: "length (series_div xs ys) = Suc k"
    using assms(1) k by (simp add: series_div_def)
  have "ys ! k = None"
    using assms(2,3) k by (simp add: last_conv_nth)
  then have "series_div xs ys ! k = None"
    using assms(1) k by (simp add: series_div_def split: option.splits)
  moreover have "last (series_div xs ys) = series_div xs ys ! k"
    using len by (metis last_conv_nth diff_Suc_1 length_0_conv nat.distinct(1))
  ultimately show ?thesis using len by auto
qed

lemma rsi_body_short:
  "int (length cs) < period + 1 \<Longrightarrow> rsi_body (Some cs) period = Inr None"
  by (simp add: rsi_body_def)

lemma compute_rsi_short:
  "int (length cs) < period + 1 \<Longrightarrow> compute_rsi (Some cs) period = None"
  by (simp add: compute_rsi_def rsi_body_short)

subsection \<open>Too few closes\<close>

text \<open>
  C5. A close series with fewer than \<open>period + 1\<close> points makes \<open>compute_rsi\<close> return
  \<open>None\<close>, by the length test and not through a caught exception; and a history of fewer
  than 15 rows (the evaluator calls with period 14) that has a maximum high still yields
  a result from \<open>check_stock_alert\<close>, with every other field computed and \<open>rsi\<close> absent.
\<close>

theorem short_series_rsi_absent:
  "(int (length cs) < period + 1 \<longrightarrow>
      rsi_body (Some cs) period = Inr None \<and> compute_rsi (Some cs) period = None)
   \<and> (get_stock_data cfg yf symb = Some d \<and> length d < 15
        \<and> series_max (map High d) = Some h \<longrightarrow>
        check_stock_alert rt cfg yf symb =
          Inr (Some \<lparr>symbol = symb,
            current_price = round_cell rt (Close (last d)),
            recent_high = round_cell rt (Some h),
            pct_from_high =
              round_fval rt (float_mul_100 rt
                (float_div rt (float_sub rt (Close (last d)) (Some h)) (Some h))),
            is_alert = float_le (float_div rt (float_sub rt (Close (last d)) (Some h)) (Some h))
                         (- \<bar>case alert_threshold cfg of None \<Rightarrow> fl rt (5 / 100) | Some t \<Rightarrow> t\<bar>),
            date_of_high = Date (last (filter (\<lambda>p. cell_eq (High p) (Some h)) d)),
            status = (if float_le (float_div rt (float_sub rt (Close (last d)) (Some h)) (Some h))
                           (- \<bar>case alert_threshold cfg of None \<Rightarrow> fl rt (5 / 100) | Some t \<Rightarrow> t\<bar>)
                      then ''ALERT'' else ''OK''),
            rsi = None\<rparr>))"
proof (intro conjI impI)
  assume "int (length cs) < period + 1"
  then show "rsi_body (Some cs) period = Inr None" by (rule rsi_body_short)
next
  assume "int (length cs) < period + 1"
  then show "compute_rsi (Some cs) period = None" by (rule compute_rsi_short)
next
  assume a: "get_stock_data cfg yf symb = Some d \<and> length d < 15
        \<and> series_max (map High d) = Some h"
  then have "compute_rsi (Some (map Close d)) 14 = None"
    by (intro compute_rsi_short) simp
  with a show "check_stock_alert rt cfg yf symb =
          Inr (Some \<lparr>symbol = symb,
            current_price = round_cell rt (Close (last d)),
            recent_high = round_cell rt (Some h),
            pct_from_high =
              round_fval rt (float_mul_100 rt
                (float_div rt (float_sub rt (Close (last d)) (Some h)) (Some h))),
            is_alert = float_le (float_div rt (float_sub rt (Close (last d)) (Some h)) (Some h))
                         (- \<bar>case alert_threshold cfg of None \<Rightarrow> fl rt (5 / 100) | Some t \<Rightarrow> t\<bar>),
            date_of_high = Date (last (filter (\<lambda>p. cell_eq (High p) (Some h)) d)),
            status = (if float_le (float_div rt (float_sub rt (Close (last d)) (Some h)) (Some h))
                           (- \<bar>case alert_threshold cfg of None \<Rightarrow> fl rt (5 / 100) | Some t \<Rightarrow> t\<bar>)
                      then ''ALERT'' else ''OK''),
            rsi = None\<rparr>)"
    by (simp add: check_stock_alert_data)
qed

theorem short_series_rsi_absent_witness:
  "int (length [Some 10, Some 11, Some (12 :: rat)]) < 14 + 1
   \<and> rsi_body (Some [Some 10, Some 11, Some 12]) 14 = Inr None
   \<and> compute_rsi (Some [Some 10, Some 11, Some 12]) 14 = None
   \<and> get_stock_data default_config only_aaa ''AAA'' = Some ten_days
   \<and> length ten_days < 15
   \<and> series_max (map High ten_days) = Some 100
   \<and> check_stock_alert float64 default_config only_aaa ''AAA'' = Inr (Some ten_days_result)
   \<and> rsi ten_days_result = None"
proof -
  have h1: "int (length [Some 10, Some 11, Some (12 :: rat)]) < 14 + 1" by simp
  have h2: "get_stock_data default_config only_aaa ''AAA'' = Some ten_days \<and> length ten_days < 15
      \<and> series_max (map High ten_days) = Some 100"
    by code_simp
  have run: "check_stock_alert float64 default_config only_aaa ''AAA'' = Inr (Some ten_days_result)"
    by code_simp
  note inst = short_series_rsi_absent [of "[Some 10, Some 11, Some 12]" 14 default_config only_aaa
      "''AAA''" ten_days 100 float64]
  from inst h1 have c1: "rsi_body (Some [Some 10, Some 11, Some 12]) 14 = Inr None
      \<and> compute_rsi (Some [Some 10, Some 11, Some 12]) 14 = None"
    by blast
  from inst h2
  have "\<exists>r. check_stock_alert float64 default_config only_aaa ''AAA'' = Inr (Some r) \<and> rsi r = None"
    by simp
  with run have "rsi ten_days_result = None"
    by auto
  with h1 h2 c1 run show ?thesis by blast
qed

subsection \<open>Average loss of zero\<close>

lemma last_rolling_mean:
  assumes "xs \<noteq> []"
  shows "last (rolling_mean w xs) = window_mean w (drop (length xs - w) xs)"
proof -
  obtain k where k: "length xs = Suc k"
    using assms by (cases xs) auto
  have "last (rolling_mean w xs) =
      window_mean w (drop (Suc k - w) (take (Suc k) xs))"
    using k by (simp add: rolling_mean_def)
  also have "\<dots> = window_mean w (drop (length xs - w) xs)"
    using k by simp
  finally show ?thesis .
qed

lemma window_mean_zeros: "0 < w \<Longrightarrow> window_mean w (replicate w (Some 0)) = Some 0"
  by (simp add: window_mean_def List.map_filter_def sum_list_replicate)

text \<open>A series of present closes that does not fall over its last \<open>w\<close> steps has a
  trailing average loss of exactly zero.\<close>

lemma nondecreasing_tail_avg_loss_zero:
  assumes "0 < w" and "w < length cs"
    and "\<forall>i. length cs - w \<le> i \<and> i < length cs \<longrightarrow> cs ! (i - 1) \<le> cs ! i"
  shows "last (rolling_mean w (losses_of (diff (map Some cs)))) = Some 0"
proof -
  let ?n = "length cs"
  let ?L = "losses_of (diff (map Some cs))"
  have len: "length ?L = ?n" by (simp add: losses_of_def diff_def)
  have ne: "?L \<noteq> []" using assms(2) len by auto
  have "drop (?n - w) ?L = replicate w (Some 0)"
  proof (rule nth_equalityI)
    show "length (drop (?n - w) ?L) = length (replicate w (Some (0::rat)))"
      using assms(2) len by simp
  next
    fix k assume "k < length (drop (?n - w) ?L)"
    then have k: "k < w" using assms(2) len by simp
    let ?i = "?n - w + k"
    have i: "?n - w \<le> ?i" "?i < ?n" "0 < ?i" using k assms(2) by auto
    then have "cs ! (?i - 1) \<le> cs ! ?i" using assms(3) by blast
    then have "?L ! ?i = Some 0"
      using i assms(2) by (auto simp: losses_of_def diff_def)
    then show "drop (?n - w) ?L ! k = replicate w (Some 0) ! k"
      using k i len by simp
  qed
  then have "window_mean w (drop (length ?L - w) ?L) = Some 0"
    using assms(1) len by (simp add: window_mean_zeros)
  then show ?thesis
    using ne by (simp add: last_rolling_mean)
qed

text \<open>
  Against C2 as worded. Fifteen closes rising by one a day, period 14: the series is
  non-decreasing, the average loss over the trailing window is exactly zero, nothing is
  raised, and the RSI is absent, not 100.
\<close>

theorem zero_avg_loss_gives_100_counterexample:
  "14 + 1 \<le> int (length rising_closes)
   \<and> rising_closes = map Some rising_values
   \<and> sorted rising_values
   \<and> last (rolling_mean 14 (losses_of (diff rising_closes))) = Some 0
   \<and> rsi_body (Some rising_closes) 14 = Inr None
   \<and> compute_rsi (Some rising_closes) 14 \<noteq> Some 100"
  by code_simp

text \<open>
  C2 (amended). For a period that is not negative and a close series of at least
  \<open>period + 1\<close> points whose average loss over the trailing window is exactly zero,
  \<open>compute_rsi\<close> raises nothing and returns \<open>None\<close>: the zero is replaced by a
  missing value before the division.
\<close>

theorem zero_avg_loss_rsi_absent:
  assumes "0 \<le> period" and "period + 1 \<le> int (length cs)"
    and "last (rolling_mean (nat period) (losses_of (diff cs))) = Some 0"
  shows "rsi_body (Some cs) period = Inr None \<and> compute_rsi (Some cs) period = None"
proof -
  let ?avg_gain = "rolling_mean (nat period) (gains_of (diff cs))"
  let ?avg_loss = "rolling_mean (nat period) (losses_of (diff cs))"
  let ?rs = "series_div ?avg_gain (replace_zero_na ?avg_loss)"
  have ne: "cs \<noteq> []" using assms(1,2) by auto
  then have loss_ne: "?avg_loss \<noteq> []"
    by (metis length_rolling_mean length_losses_of length_diff length_0_conv)
  have lens: "length ?avg_gain = length (replace_zero_na ?avg_loss)"
    by (simp add: length_rolling_mean length_gains_of length_losses_of length_diff
        length_replace_zero_na)
  have repl_ne: "replace_zero_na ?avg_loss \<noteq> []"
    using loss_ne by (metis length_replace_zero_na length_0_conv)
  have "last (replace_zero_na ?avg_loss) = None"
    using loss_ne assms(3) by (rule last_replace_zero_na)
  with lens repl_ne have rs: "?rs \<noteq> [] \<and> last ?rs = None"
    by (intro series_div_last_missing)
  then have "iloc_last (map (map_option (\<lambda>r. 100 - 100 / (1 + r))) ?rs) = Inr None"
    by (simp add: iloc_last_def last_map)
  then have body: "rsi_body (Some cs) period = Inr None"
    using assms(1,2) by (simp add: rsi_body_def Let_def)
  then show ?thesis by (simp add: compute_rsi_def)
qed

theorem zero_avg_loss_rsi_absent_witness:
  "(0::int) \<le> 14 \<and> 14 + 1 \<le> int (length rising_closes)
   \<and> last (rolling_mean (nat 14) (losses_of (diff rising_closes))) = Some 0
   \<and> rsi_body (Some rising_closes) 14 = Inr None
   \<and> compute_rsi (Some rising_closes) 14 = None"
proof -
  have h1: "(0::int) \<le> 14" by simp
  have h2: "14 + 1 \<le> int (length rising_closes)" by code_simp
  have h3: "last (rolling_mean (nat 14) (losses_of (diff rising_closes))) = Some 0"
    by code_simp
  from zero_avg_loss_rsi_absent [OF h1 h2 h3] h1 h2 h3 show ?thesis by blast
qed

section \<open>Scan: results\<close>

text \<open>When the evaluation of every symbol returns, the loop appends, in order, the result
  of every symbol that has one.\<close>

lemma scan_loop_completes:
  assumes "\<forall>s \<in> set symbols. \<exists>r. check_stock_alert rt cfg yf s = Inr r"
  shows "scan_loop rt cfg yf symbols alerts results =
     Inr (alerts @ filter is_alert
            (List.map_filter
               (\<lambda>s. case check_stock_alert rt cfg yf s of Inl e \<Rightarrow> None | Inr r \<Rightarrow> r) symbols),
          results @
            List.map_filter
              (\<lambda>s. case check_stock_alert rt cfg yf s of Inl e \<Rightarrow> None | Inr r \<Rightarrow> r) symbols)"
  using assms
proof (induction symbols arbitrary: alerts results)
  case Nil
  then show ?case by (simp add: List.map_filter_simps)
next
  case (Cons s rest)
  then obtain r where r: "check_stock_alert rt cfg yf s = Inr r"
    by auto
  have rest: "\<forall>s \<in> set rest. \<exists>r. check_stock_alert rt cfg yf s = Inr r"
    using Cons.prems by simp
  show ?case
  proof (cases r)
    case None
    with r Cons.IH [OF rest] show ?thesis by (simp add: List.map_filter_simps)
  next
    case (Some res)
    with r Cons.IH [OF rest] show ?thesis by (simp add: List.map_filter_simps)
  qed
qed

text \<open>When the evaluation of some symbol raises, so does the loop.\<close>

lemma scan_loop_raises:
  assumes "s \<in> set symbols" and "check_stock_alert rt cfg yf s = Inl e"
  shows "\<exists>e'. scan_loop rt cfg yf symbols alerts results = Inl e'"
  using assms
proof (induction symbols arbitrary: alerts results)
  case Nil
  then show ?case by simp
next
  case (Cons x rest)
  show ?case
  proof (cases "check_stock_alert rt cfg yf x")
    case (Inl e1)
    then show ?thesis by simp
  next
    case (Inr r)
    with Cons.prems have "s \<in> set rest" by auto
    then have "\<exists>e'. scan_loop rt cfg yf rest a b = Inl e'" for a b
      using Cons.IH Cons.prems(2) by blast
    with Inr show ?thesis by (cases r) simp_all
  qed
qed

lemma symbols_of_results:
  assumes "\<forall>s \<in> set symbols. \<exists>r. check_stock_alert rt cfg yf s = Inr r"
  shows "map symbol (List.map_filter
      (\<lambda>s. case check_stock_alert rt cfg yf s of Inl e \<Rightarrow> None | Inr r \<Rightarrow> r) symbols) =
   filter (\<lambda>s. get_stock_data cfg yf s \<noteq> None) symbols"
  using assms
proof (induction symbols)
  case Nil
  then show ?case by (simp add: List.map_filter_simps)
next
  case (Cons s rest)
  then have IH: "map symbol (List.map_filter
      (\<lambda>s. case check_stock_alert rt cfg yf s of Inl e \<Rightarrow> None | Inr r \<Rightarrow> r) rest) =
   filter (\<lambda>s. get_stock_data cfg yf s \<noteq> None) rest"
    by simp
  show ?case
  proof (cases "get_stock_data cfg yf s")
    case None
    with IH show ?thesis
      by (simp add: List.map_filter_simps check_stock_alert_no_data)
  next
    case (Some d)
    show ?thesis
    proof (cases "series_max (map High d)")
      case None
      with Some have "check_stock_alert rt cfg yf s = Inl IndexError"
        by (rule check_stock_alert_nan_high)
      with Cons.prems show ?thesis by auto
    next
      case (Some h)
      with \<open>get_stock_data cfg yf s = Some d\<close> IH show ?thesis
        by (simp add: List.map_filter_simps check_stock_alert_data)
    qed
  qed
qed

text \<open>After the loop, \<open>scan_portfolio\<close> writes the snapshot and may call the notifier;
  it returns whatever the notifier does.\<close>

lemma scan_portfolio_after_loop:
  assumes "scan_loop rt (config st) yf
             (case stocks (config st) of None \<Rightarrow> [] | Some l \<Rightarrow> l) [] [] = Inr (alerts, results)"
    and "st1 = st\<lparr>last_scan_results := results, last_scan_time := Some now\<rparr>"
  shows "scan_portfolio rt st yf server now =
     Inr ((alerts, results),
          if alerts \<noteq> [] \<and> email_enabled (config st)
          then snd (send_email_alert st1 server now alerts) else st1)"
  using assms by (simp add: scan_portfolio_def Let_def)

lemma scan_portfolio_raises:
  assumes "scan_loop rt (config st) yf
             (case stocks (config st) of None \<Rightarrow> [] | Some l \<Rightarrow> l) [] [] = Inl e"
  shows "scan_portfolio rt st yf server now = Inl e"
  using assms by (simp add: scan_portfolio_def)

lemma send_email_alert_notified:
  "notified (snd (send_email_alert st server now alerts)) = notified st @ [alerts]"
  by (simp add: send_email_alert_def Let_def split: option.splits)

lemma send_email_alert_snapshot:
  "last_scan_results (snd (send_email_alert st server now alerts)) = last_scan_results st
   \<and> last_scan_time (snd (send_email_alert st server now alerts)) = last_scan_time st
   \<and> config (snd (send_email_alert st server now alerts)) = config st"
  by (simp add: send_email_alert_def Let_def split: option.splits)

text \<open>With email enabled and the three addresses present, the notifier hands exactly one
  message to the server, with the whole batch; otherwise it hands none.\<close>

lemma send_email_alert_sends_one:
  assumes "email_settings (config st) = Some e" and "enabled e = Some True"
    and "sender_email e = Some sender" and "sender_password e = Some password"
    and "recipient_email e = Some recipient"
  shows "outbox (snd (send_email_alert st server now alerts)) =
     outbox st @ [\<lparr>msg_from = sender, msg_to = recipient, subject_count = length alerts,
                   body_alerts = alerts, generated_at = now\<rparr>]"
  using assms by (simp add: send_email_alert_def Let_def)

lemma send_email_alert_sends_none:
  assumes "email_settings (config st) = None
      \<or> (\<exists>e. email_settings (config st) = Some e
            \<and> (enabled e \<noteq> Some True \<or> sender_email e = None \<or> sender_password e = None
                \<or> recipient_email e = None))"
  shows "outbox (snd (send_email_alert st server now alerts)) = outbox st"
  using assms by (auto simp: send_email_alert_def Let_def split: option.splits)

subsection \<open>Order, omissions and alerts of a scan\<close>

text \<open>When the evaluation of every configured symbol returns, the scan returns; its
  results are the entries of the symbols that have data, in the configured order, and its
  alerts are the results with \<open>is_alert\<close>.\<close>

lemma scan_results_when_evaluation_returns:
  assumes "stocks (config st) = Some symbols"
    and "\<forall>s \<in> set symbols. \<exists>r. check_stock_alert rt (config st) yf s = Inr r"
  shows "\<exists>alerts results st'.
      scan_portfolio rt st yf server now = Inr ((alerts, results), st')
    \<and> results = List.map_filter
        (\<lambda>s. case check_stock_alert rt (config st) yf s of Inl e \<Rightarrow> None | Inr r \<Rightarrow> r) symbols
    \<and> map symbol results = filter (\<lambda>s. get_stock_data (config st) yf s \<noteq> None) symbols
    \<and> alerts = filter is_alert results"
proof -
  define results where "results = List.map_filter
      (\<lambda>s. case check_stock_alert rt (config st) yf s of Inl e \<Rightarrow> None | Inr r \<Rightarrow> r) symbols"
  have loop: "scan_loop rt (config st) yf
             (case stocks (config st) of None \<Rightarrow> [] | Some l \<Rightarrow> l) [] [] =
          Inr (filter is_alert results, results)"
    using scan_loop_completes [OF assms(2), of "[]" "[]"] assms(1)
    by (simp add: results_def)
  have run: "\<exists>st'. scan_portfolio rt st yf server now =
      Inr ((filter is_alert results, results), st')"
    using scan_portfolio_after_loop [OF loop refl] by simp
  have order: "map symbol results =
      filter (\<lambda>s. get_stock_data (config st) yf s \<noteq> None) symbols"
    unfolding results_def using assms(2) by (rule symbols_of_results)
  from run order show ?thesis
    unfolding results_def by blast
qed

text \<open>
  C3 asks that a symbol whose fetch or evaluation fails be left out of both lists and that
  no exception reach the caller. With the symbols AAA and NANS, where the frame of NANS
  is one row of NaN, the evaluation of AAA returns its entry, the evaluation of NANS
  raises \<^verbatim>\<open>IndexError\<close>, and so does the scan. With BBB, whose frame is empty, in the place
  of NANS the scan returns, and its results and alerts are the AAA entry alone.
\<close>

theorem scan_raises_on_nan_highs:
  "stocks nan_config = Some [''AAA'', ''NANS'']
   \<and> get_stock_data nan_config nan_market ''NANS'' = Some nan_day
   \<and> check_stock_alert float64 nan_config nan_market ''AAA'' = Inr (Some ten_days_result)
   \<and> check_stock_alert float64 nan_config nan_market ''NANS'' = Inl IndexError
   \<and> scan_portfolio float64 (initial_state\<lparr>config := nan_config\<rparr>) nan_market working_smtp 7 =
       Inl IndexError
   \<and> stocks mail_config = Some [''AAA'', ''BBB'']
   \<and> get_stock_data mail_config only_aaa ''BBB'' = None
   \<and> fst (projr (scan_portfolio float64 (initial_state\<lparr>config := mail_config\<rparr>) only_aaa
                    working_smtp 7)) =
       ([ten_days_result], [ten_days_result])"
  by code_simp

subsection \<open>Notification\<close>

text \<open>When the loop has returned its two lists, the scan returns them whatever the server
  does, the snapshot holds the results and the time, the notifier has been called once
  with the whole batch exactly when there are alerts and email is enabled, and the server
  has been handed one message with the whole batch when the addresses are present.\<close>

lemma scan_notifies_after_evaluation:
  assumes "scan_loop rt (config st) yf
             (case stocks (config st) of None \<Rightarrow> [] | Some l \<Rightarrow> l) [] [] = Inr (alerts, results)"
  shows "\<exists>st'.
      scan_portfolio rt st yf server now = Inr ((alerts, results), st')
    \<and> notified st' =
        notified st @ (if alerts \<noteq> [] \<and> email_enabled (config st) then [alerts] else [])
    \<and> last_scan_results st' = results
    \<and> last_scan_time st' = Some now
    \<and> (alerts \<noteq> [] \<and> email_settings (config st) = Some e \<and> enabled e = Some True
         \<and> sender_email e = Some sender \<and> sender_password e = Some password
         \<and> recipient_email e = Some recipient \<longrightarrow>
         outbox st' =
           outbox st @ [\<lparr>msg_from = sender, msg_to = recipient, subject_count = length alerts,
                         body_alerts = alerts, generated_at = now\<rparr>])
    \<and> (alerts = [] \<or> \<not> email_enabled (config st) \<longrightarrow> outbox st' = outbox st)"
proof -
  define st1 where "st1 = st\<lparr>last_scan_results := results, last_scan_time := Some now\<rparr>"
  define st2 where "st2 =
     (if alerts \<noteq> [] \<and> email_enabled (config st)
      then snd (send_email_alert st1 server now alerts) else st1)"
  have run: "scan_portfolio rt st yf server now = Inr ((alerts, results), st2)"
    unfolding st2_def using assms st1_def by (rule scan_portfolio_after_loop)
  have snap: "last_scan_results st2 = results \<and> last_scan_time st2 = Some now"
    by (simp add: st2_def send_email_alert_snapshot st1_def)
  have calls: "notified st2 =
      notified st @ (if alerts \<noteq> [] \<and> email_enabled (config st) then [alerts] else [])"
    by (simp add: st2_def send_email_alert_notified st1_def)
  have one: "alerts \<noteq> [] \<and> email_settings (config st) = Some e \<and> enabled e = Some True
         \<and> sender_email e = Some sender \<and> sender_password e = Some password
         \<and> recipient_email e = Some recipient \<longrightarrow>
         outbox st2 =
           outbox st @ [\<lparr>msg_from = sender, msg_to = recipient, subject_count = length alerts,
                         body_alerts = alerts, generated_at = now\<rparr>]"
  proof
    assume a: "alerts \<noteq> [] \<and> email_settings (config st) = Some e \<and> enabled e = Some True
         \<and> sender_email e = Some sender \<and> sender_password e = Some password
         \<and> recipient_email e = Some recipient"
    then have on: "email_enabled (config st)" by (simp add: email_enabled_def)
    have cfg1: "email_settings (config st1) = Some e" using a by (simp add: st1_def)
    from a on have "st2 = snd (send_email_alert st1 server now alerts)"
      by (simp add: st2_def)
    moreover have "outbox st1 = outbox st" by (simp add: st1_def)
    ultimately show "outbox st2 =
           outbox st @ [\<lparr>msg_from = sender, msg_to = recipient, subject_count = length alerts,
                         body_alerts = alerts, generated_at = now\<rparr>]"
      using send_email_alert_sends_one [OF cfg1, of sender password recipient server now alerts] a
      by simp
  qed
  have none: "alerts = [] \<or> \<not> email_enabled (config st) \<longrightarrow> outbox st2 = outbox st"
  proof
    assume "alerts = [] \<or> \<not> email_enabled (config st)"
    then have "st2 = st1" by (auto simp: st2_def)
    then show "outbox st2 = outbox st" by (simp add: st1_def)
  qed
  from run snap calls one none show ?thesis by blast
qed

text \<open>
  C7 asks that every scan call the notifier with the whole batch when there are alerts and
  email is enabled, and that results and timestamp be published whatever the notifier
  does. With the symbols AAA and NANS and email enabled, the loop has found the alert of
  AAA when the evaluation of NANS raises; the scan raises with it, before the snapshot is
  written and before the notifier is called. Without NANS, and with a server that fails
  every session, the notifier is called with the batch and the snapshot is written.
\<close>

theorem scan_with_alert_raises_before_notifying:
  "scan_loop float64 nan_config nan_market [''AAA''] [] [] =
       Inr ([ten_days_result], [ten_days_result])
   \<and> email_enabled nan_config
   \<and> check_stock_alert float64 nan_config nan_market ''NANS'' = Inl IndexError
   \<and> scan_portfolio float64 (initial_state\<lparr>config := nan_config\<rparr>) nan_market working_smtp 7 =
       Inl IndexError
   \<and> notified (snd (projr (scan_portfolio float64 (initial_state\<lparr>config := mail_config\<rparr>) only_aaa
                           failing_smtp 7))) = [[ten_days_result]]
   \<and> last_scan_results (snd (projr (scan_portfolio float64 (initial_state\<lparr>config := mail_config\<rparr>)
                                     only_aaa failing_smtp 7))) = [ten_days_result]
   \<and> last_scan_time (snd (projr (scan_portfolio float64 (initial_state\<lparr>config := mail_config\<rparr>)
                                  only_aaa failing_smtp 7))) = Some 7"
  by code_simp

section \<open>Monitoring thread: results\<close>

text \<open>Return values and the flag follow the two-state machine, for every sequence of
  calls.\<close>

lemma run_calls_refines_spec:
  "fst (run_calls cs st) = fst (spec_run cs (scheduler_state_of st))
   \<and> scheduler_state_of (snd (run_calls cs st)) = snd (spec_run cs (scheduler_state_of st))"
proof (induction cs arbitrary: st)
  case Nil
  then show ?case by simp
next
  case (Cons c cs)
  show ?case
  proof (cases c)
    case Start
    have step: "fst (start_monitoring st) = fst (spec_start (scheduler_state_of st))
        \<and> scheduler_state_of (snd (start_monitoring st)) = snd (spec_start (scheduler_state_of st))"
      by (simp add: start_monitoring_def scheduler_state_of_def)
    with Cons [of "snd (start_monitoring st)"] Start show ?thesis
      by (simp add: split_beta Let_def)
  next
    case Stop
    have step: "fst (stop_monitoring st) = fst (spec_stop (scheduler_state_of st))
        \<and> scheduler_state_of (snd (stop_monitoring st)) = snd (spec_stop (scheduler_state_of st))"
      by (simp add: stop_monitoring_def scheduler_state_of_def)
    with Cons [of "snd (stop_monitoring st)"] Stop show ?thesis
      by (simp add: split_beta Let_def)
  qed
qed

text \<open>A start while the flag is set changes nothing; a start with the flag cleared adds a
  loop thread to those still alive; a stop removes none.\<close>

lemma start_while_running: "monitoring st \<Longrightarrow> start_monitoring st = (False, st)"
  by (simp add: start_monitoring_def)

lemma start_adds_loop:
  "\<not> monitoring st \<Longrightarrow>
     fst (start_monitoring st) \<and> monitoring (snd (start_monitoring st))
     \<and> loops (snd (start_monitoring st)) = loops st @ [threads_started st]"
  by (simp add: start_monitoring_def)

lemma stop_keeps_loops:
  "fst (stop_monitoring st) \<and> \<not> monitoring (snd (stop_monitoring st))
   \<and> loops (snd (stop_monitoring st)) = loops st"
  by (simp add: stop_monitoring_def)

text \<open>A loop thread ends only at a test that finds the flag cleared.\<close>

lemma loop_test_running: "monitoring st \<Longrightarrow> loop_test t st = st"
  by (simp add: loop_test_def)

text \<open>So a stop followed by a start before the sleeping thread has tested the flag leaves
  that thread alive beside the new one.\<close>

lemma restart_before_test_keeps_old_loop:
  assumes "t \<in> set (loops st)"
  shows "t \<in> set (loops (loop_test t (snd (start_monitoring (snd (stop_monitoring st))))))
       \<and> threads_started st \<in> set (loops (loop_test t (snd (start_monitoring (snd (stop_monitoring st))))))
       \<and> monitoring (snd (start_monitoring (snd (stop_monitoring st))))"
  using assms by (simp add: start_monitoring_def stop_monitoring_def loop_test_def)

text \<open>
  C6 asks for at most one active loop. From the initial state the calls start, stop, start
  all return \<open>True\<close>, and when the thread of the first start has not tested the flag
  between the stop and the second start, two loop threads are alive; each finds the flag
  set at its next test and goes on. When the first thread tests the flag before the second
  start, it ends and one loop is left; and a second start without a stop returns \<open>False\<close>
  and starts nothing.
\<close>

theorem restart_leaves_two_loops:
  "fst (run_calls [Start, Stop, Start] initial_state) = [True, True, True]
   \<and> monitoring (snd (run_calls [Start, Stop, Start] initial_state))
   \<and> loops (snd (run_calls [Start, Stop, Start] initial_state)) = [0, 1]
   \<and> loops (loop_test 1 (loop_test 0 (snd (run_calls [Start, Stop, Start] initial_state)))) = [0, 1]
   \<and> loops (snd (start_monitoring (loop_test 0 (snd (run_calls [Start, Stop] initial_state))))) = [1]
   \<and> fst (run_calls [Start, Start] initial_state) = [True, False]
   \<and> loops (snd (run_calls [Start, Start] initial_state)) = [0]"
  by code_simp

section \<open>Form handlers: results\<close>

lemma isspace_upper_char: "isspace (upper_char c) = isspace c"
  by (auto simp: isspace_def upper_char_def Let_def)

lemma upper_char_idem: "upper_char (upper_char c) = upper_char c"
  by (auto simp: upper_char_def Let_def)

lemma upper_idem: "upper (upper s) = upper s"
  by (simp add: upper_def upper_char_idem)

lemma dropWhile_isspace_upper:
  "dropWhile isspace (map upper_char xs) = map upper_char (dropWhile isspace xs)"
  by (induction xs) (simp_all add: isspace_upper_char)

lemma strip_upper: "strip (upper s) = upper (strip s)"
  by (simp add: strip_def upper_def rev_map dropWhile_isspace_upper)

lemma dropWhile_idem: "dropWhile P (dropWhile P xs) = dropWhile P xs"
  by (induction xs) simp_all

lemma dropWhile_snoc_keeps: "\<not> P x \<Longrightarrow> \<exists>ys. dropWhile P (zs @ [x]) = ys @ [x]"
  by (induction zs) auto

lemma strip_no_leading: "dropWhile isspace (strip s) = strip s"
proof (cases "dropWhile isspace s")
  case Nil
  show ?thesis unfolding strip_def Nil by simp
next
  case (Cons x a)
  have "dropWhile isspace s \<noteq> []"
    unfolding Cons by simp
  then have "\<not> isspace (hd (dropWhile isspace s))"
    by (rule hd_dropWhile)
  then have x: "\<not> isspace x"
    unfolding Cons by simp
  then obtain ys where ys: "dropWhile isspace (rev a @ [x]) = ys @ [x]"
    using dropWhile_snoc_keeps [of isspace x "rev a"] by auto
  have "rev (dropWhile isspace (rev (x # a))) = rev (dropWhile isspace (rev a @ [x]))"
    by simp
  also have "\<dots> = x # rev ys"
    unfolding ys by simp
  finally have r: "rev (dropWhile isspace (rev (x # a))) = x # rev ys" .
  have "dropWhile isspace (x # rev ys) = x # rev ys"
    using x by simp
  then show ?thesis
    unfolding strip_def Cons r .
qed

lemma strip_no_trailing: "dropWhile isspace (rev (strip s)) = rev (strip s)"
  by (simp add: strip_def dropWhile_idem)

lemma strip_idem: "strip (strip s) = strip s"
proof -
  have "strip (strip s) = rev (dropWhile isspace (rev (dropWhile isspace (strip s))))"
    by (rule strip_def)
  also have "\<dots> = rev (dropWhile isspace (rev (strip s)))"
    by (simp only: strip_no_leading)
  also have "\<dots> = strip s"
    by (simp only: strip_no_trailing rev_rev_ident)
  finally show ?thesis .
qed

lemma parse_stocks_entry:
  assumes "s \<in> set (parse_stocks stocks_text)"
  shows "s \<noteq> [] \<and> strip s = s \<and> upper s = s"
proof -
  from assms obtain p where p: "strip p \<noteq> []" "s = upper (strip p)"
    by (auto simp: parse_stocks_def)
  have "s \<noteq> []" using p by (simp add: upper_def)
  moreover have "strip s = s" using p by (simp add: strip_upper strip_idem)
  moreover have "upper s = s" using p by (simp add: upper_idem)
  ultimately show ?thesis by blast
qed

lemma update_stocks_config:
  "config (fst (update_stocks st form_stocks)) =
     (config st)\<lparr>stocks := Some (parse_stocks (form_get form_stocks))\<rparr>"
  by (simp add: update_stocks_def save_config_def Let_def)

subsection \<open>The stock list\<close>

text \<open>
  Against C8 as worded. The form text \<^verbatim>\<open>AAPL, MSFT, AAPL\<close> stores \<^verbatim>\<open>AAPL\<close> twice:
  nothing in \<open>update_stocks\<close> removes a repeated symbol.
\<close>

theorem stock_list_has_no_duplicates_counterexample:
  "stocks (config (fst (update_stocks initial_state (Some ''AAPL, MSFT, AAPL'')))) =
     Some [''AAPL'', ''MSFT'', ''AAPL'']
   \<and> \<not> distinct [''AAPL'', ''MSFT'', ''AAPL'']"
  by code_simp

text \<open>
  C8 (amended). After every stock-list update, whether or not the configuration could be
  saved, the configured symbols are an ordered list with one entry for every non-blank
  piece of the form text: every stored symbol is upper-cased, trimmed of white space and
  not empty. Repeated symbols are kept.
\<close>

theorem update_stocks_stores_normalised_list:
  "stocks (config (fst (update_stocks st form_stocks))) =
       Some (parse_stocks (form_get form_stocks))
   \<and> (\<forall>s \<in> set (parse_stocks (form_get form_stocks)). s \<noteq> [] \<and> strip s = s \<and> upper s = s)
   \<and> length (parse_stocks (form_get form_stocks)) =
       length (filter (\<lambda>p. strip p \<noteq> []) (split_lines (replace_comma (form_get form_stocks))))"
proof (intro conjI ballI)
  show "stocks (config (fst (update_stocks st form_stocks))) =
       Some (parse_stocks (form_get form_stocks))"
    by (simp add: update_stocks_config)
next
  fix s assume "s \<in> set (parse_stocks (form_get form_stocks))"
  then have "s \<noteq> [] \<and> strip s = s \<and> upper s = s" by (rule parse_stocks_entry)
  then show "s \<noteq> []" "strip s = s" "upper s = s" by simp_all
next
  show "length (parse_stocks (form_get form_stocks)) =
       length (filter (\<lambda>p. strip p \<noteq> []) (split_lines (replace_comma (form_get form_stocks))))"
    by (simp add: parse_stocks_def)
qed

theorem update_stocks_stores_normalised_list_witness:
  "stocks (config (fst (update_stocks initial_state (Some ''aapl, msft ,, AAPL'')))) =
       Some [''AAPL'', ''MSFT'', ''AAPL'']
   \<and> ''MSFT'' \<in> set (parse_stocks (form_get (Some ''aapl, msft ,, AAPL'')))
   \<and> strip ''MSFT'' = ''MSFT'' \<and> upper ''MSFT'' = ''MSFT''
   \<and> length (parse_stocks (form_get (Some ''aapl, msft ,, AAPL''))) = 3"
proof -
  have p: "parse_stocks (form_get (Some ''aapl, msft ,, AAPL'')) = [''AAPL'', ''MSFT'', ''AAPL'']"
    by code_simp
  have m: "''MSFT'' \<in> set (parse_stocks (form_get (Some ''aapl, msft ,, AAPL'')))"
    by (simp add: p)
  note inst = update_stocks_stores_normalised_list [of initial_state "Some ''aapl, msft ,, AAPL''"]
  from inst p have c1: "stocks (config (fst (update_stocks initial_state (Some ''aapl, msft ,, AAPL'')))) =
       Some [''AAPL'', ''MSFT'', ''AAPL'']" by simp
  from inst m have c2: "strip ''MSFT'' = ''MSFT'' \<and> upper ''MSFT'' = ''MSFT''" by blast
  from p have c3: "length (parse_stocks (form_get (Some ''aapl, msft ,, AAPL''))) = 3" by simp
  from c1 m c2 c3 show ?thesis by blast
qed

subsection \<open>Thesis entries and invalid indices\<close>

text \<open>
  C10. For an index outside the range from 0 to the number of thesis entries,
  \<open>update_thesis\<close> and \<open>delete_thesis\<close> leave the configuration in memory, and so the
  thesis entries, as they were, make no call of \<open>save_config\<close> and leave the
  configuration file as it was.
\<close>

theorem invalid_index_changes_nothing:
  assumes "\<not> (0 \<le> index
      \<and> index < int (length (case thesis_entries (config st) of None \<Rightarrow> [] | Some es \<Rightarrow> es)))"
  shows "config (update_thesis st form index) = config st
       \<and> config_file (update_thesis st form index) = config_file st
       \<and> save_calls (update_thesis st form index) = save_calls st
       \<and> config (delete_thesis st index) = config st
       \<and> config_file (delete_thesis st index) = config_file st
       \<and> save_calls (delete_thesis st index) = save_calls st"
proof -
  have upd: "update_thesis st form index =
      flash_msg st (if upper (strip (form_get (form_ticker form))) = []
                    then Ticker_required else Invalid_entry_index)"
    using assms by (auto simp: update_thesis_def Let_def)
  have del: "delete_thesis st index = flash_msg st Invalid_entry_index"
    using assms by (auto simp: delete_thesis_def Let_def)
  show ?thesis
    unfolding upd del by (simp add: flash_msg_def)
qed

theorem invalid_index_changes_nothing_witness:
  "\<not> (0 \<le> (1::int)
      \<and> 1 < int (length (case thesis_entries (config thesis_state) of None \<Rightarrow> [] | Some es \<Rightarrow> es)))
   \<and> thesis_entries (config (update_thesis thesis_state sample_form 1)) = Some one_thesis
   \<and> thesis_entries (config (delete_thesis thesis_state 1)) = Some one_thesis
   \<and> save_calls (update_thesis thesis_state sample_form 1) = 2
   \<and> save_calls (delete_thesis thesis_state 1) = 2
   \<and> config_file (delete_thesis thesis_state 1) = config_file thesis_state"
proof -
  have h: "\<not> (0 \<le> (1::int)
      \<and> 1 < int (length (case thesis_entries (config thesis_state) of None \<Rightarrow> [] | Some es \<Rightarrow> es)))"
    by code_simp
  have e: "thesis_entries (config thesis_state) = Some one_thesis" by code_simp
  have n: "save_calls thesis_state = 2" by code_simp
  from invalid_index_changes_nothing [OF h, of sample_form] e n h show ?thesis by simp
qed

end
